theory Spec2Isabelle
  imports Complex_Main "HOL-Library.Multiset"
begin

section \<open>The query service of \<^verbatim>\<open>src/app/lib/data.ts\<close>\<close>

text \<open>
  The file exports eight asynchronous read operations. Each one builds a query with the
  database client's builder, awaits the client's answer, and reshapes the rows; the body
  of each sits in a \<^verbatim>\<open>try\<close> block whose \<^verbatim>\<open>catch\<close> replaces whatever was thrown
  by \<^verbatim>\<open>new Error(msg)\<close> with a message of the operation's own.

  Modelling decisions:
  \<^item> the client is a parameter \<open>supabase\<close>: a function from the query built to the
    settled promise (\<open>Rejected\<close> with the reason, or \<open>Resolved\<close> with the response
    object \<open>{data, count, error}\<close>);
  \<^item> a thrown value is a value of type \<open>thrown\<close>; an operation returns
    \<open>thrown + result\<close>, \<open>Inl\<close> being the rejection of the operation's promise;
  \<^item> \<^verbatim>\<open>null\<close>/\<^verbatim>\<open>undefined\<close> is \<open>None\<close>; reading a property of it throws
    \<open>TypeError\<close>, as in JavaScript;
  \<^item> amounts and page numbers are mathematical integers (the JavaScript numbers
    involved are integers in the range where double arithmetic is exact); the one
    division, \<^verbatim>\<open>data.amount / 100\<close>, is a division of reals;
  \<^item> the date column is an arbitrary type \<open>'d\<close>; where an ordering of dates is
    needed it is a linear order;
  \<^item> \<^verbatim>\<open>console.error\<close> writes to the diagnostic stream only and has no influence on
    what an operation returns or throws; it is not part of the model;
  \<^item> record fields carry a prefix naming their record (\<open>ir_amount\<close> is \<^verbatim>\<open>amount\<close>
    of a raw invoice row), since field names are global.
\<close>

subsection \<open>Thrown values, promises, responses\<close>

datatype db_error = PostgrestError string

datatype thrown = Raw db_error | TypeError | Error string

datatype 'a awaited = Rejected thrown | Resolved 'a

record 'a response =
  data :: "'a option"
  count :: "nat option"
  error :: "db_error option"

text \<open>\<^verbatim>\<open>await p\<close>: the value of a resolved promise, a throw of the reason otherwise.\<close>

definition await :: "'a awaited \<Rightarrow> thrown + 'a" where
  "await p = (case p of Rejected e \<Rightarrow> Inl e | Resolved v \<Rightarrow> Inr v)"

text \<open>
  \<^verbatim>\<open>await Promise.all([p1, p2, p3])\<close>: the three values when all three resolve, a throw
  when one rejects. (Which reason is thrown when several reject depends on timing; the
  operations discard the reason.)
\<close>

definition Promise_all3 ::
  "'a awaited \<Rightarrow> 'b awaited \<Rightarrow> 'c awaited \<Rightarrow> thrown + ('a \<times> 'b \<times> 'c)" where
  "Promise_all3 p1 p2 p3 =
     (case p1 of Rejected e \<Rightarrow> Inl e | Resolved v1 \<Rightarrow>
      (case p2 of Rejected e \<Rightarrow> Inl e | Resolved v2 \<Rightarrow>
       (case p3 of Rejected e \<Rightarrow> Inl e | Resolved v3 \<Rightarrow> Inr (v1, v2, v3))))"

text \<open>
  \<^verbatim>\<open>try { body } catch (error) { console.error(..); throw new Error(msg); }\<close>
\<close>

definition try_catch :: "thrown + 'a \<Rightarrow> string \<Rightarrow> thrown + 'a" where
  "try_catch body msg = (case body of Inl e \<Rightarrow> Inl (Error msg) | Inr v \<Rightarrow> Inr v)"

text \<open>\<^verbatim>\<open>if (error) throw error;\<close> followed by the rest of the body.\<close>

definition throw_if_error :: "'a response \<Rightarrow> (thrown + 'b) \<Rightarrow> thrown + 'b" where
  "throw_if_error r rest = (case error r of Some e \<Rightarrow> Inl (Raw e) | None \<Rightarrow> rest)"

text \<open>\<^verbatim>\<open>a ?? b\<close> and \<^verbatim>\<open>a?.f(..)\<close>.\<close>

definition nullish :: "'a option \<Rightarrow> 'a \<Rightarrow> 'a" where
  "nullish a b = (case a of None \<Rightarrow> b | Some v \<Rightarrow> v)"

definition optional_chain :: "'a option \<Rightarrow> ('a \<Rightarrow> 'b) \<Rightarrow> 'b option" where
  "optional_chain a f = (case a of None \<Rightarrow> None | Some v \<Rightarrow> Some (f v))"

text \<open>\<^verbatim>\<open>xs[0]\<close> (\<^verbatim>\<open>undefined\<close> on an empty array) and \<^verbatim>\<open>obj.field\<close>.\<close>

definition index0 :: "'a list \<Rightarrow> 'a option" where
  "index0 xs = (case xs of [] \<Rightarrow> None | x # _ \<Rightarrow> Some x)"

definition get_prop :: "'a option \<Rightarrow> ('a \<Rightarrow> 'b) \<Rightarrow> thrown + 'b" where
  "get_prop obj field = (case obj of None \<Rightarrow> Inl TypeError | Some x \<Rightarrow> Inr (field x))"

text \<open>\<^verbatim>\<open>xs.map(f)\<close> for a callback that may throw: the first throw ends the map.\<close>

fun map_throwing :: "('a \<Rightarrow> thrown + 'b) \<Rightarrow> 'a list \<Rightarrow> thrown + 'b list" where
  "map_throwing f [] = Inr []"
| "map_throwing f (x # xs) =
     (case f x of Inl e \<Rightarrow> Inl e
      | Inr y \<Rightarrow> (case map_throwing f xs of Inl e \<Rightarrow> Inl e | Inr ys \<Rightarrow> Inr (y # ys)))"

text \<open>\<^verbatim>\<open>data.map(f)\<close> where \<^verbatim>\<open>data\<close> may be \<^verbatim>\<open>null\<close>.\<close>

definition map_data :: "'a list option \<Rightarrow> ('a \<Rightarrow> thrown + 'b) \<Rightarrow> thrown + 'b list" where
  "map_data d f = (case d of None \<Rightarrow> Inl TypeError | Some rows \<Rightarrow> map_throwing f rows)"

text \<open>\<^verbatim>\<open>Number(x)\<close> on a value that is a number already.\<close>

definition Number :: "int \<Rightarrow> int" where
  "Number x = x"

subsection \<open>The query builder\<close>

datatype column = Star | Col string | Embed string "string list"

record request =
  q_table :: string
  q_columns :: "column list"
  q_count :: bool
  q_head :: bool
  q_or :: "string option"
  q_eq :: "(string \<times> string) option"
  q_order :: "(string \<times> bool) option"
  q_range :: "(int \<times> int) option"
  q_limit :: "int option"
  q_single :: bool

definition from_table :: "string \<Rightarrow> request" where
  "from_table t = \<lparr>q_table = t, q_columns = [], q_count = False, q_head = False,
     q_or = None, q_eq = None, q_order = None, q_range = None, q_limit = None,
     q_single = False\<rparr>"

definition select_columns :: "column list \<Rightarrow> request \<Rightarrow> request" where
  "select_columns cs q = q\<lparr>q_columns := cs\<rparr>"

text \<open>\<^verbatim>\<open>.select(cols, { count: "exact", head: true })\<close>\<close>

definition select_count_head :: "column list \<Rightarrow> request \<Rightarrow> request" where
  "select_count_head cs q = q\<lparr>q_columns := cs, q_count := True, q_head := True\<rparr>"

definition or_filter :: "string \<Rightarrow> request \<Rightarrow> request" where
  "or_filter f q = q\<lparr>q_or := Some f\<rparr>"

definition eq_filter :: "string \<Rightarrow> string \<Rightarrow> request \<Rightarrow> request" where
  "eq_filter c v q = q\<lparr>q_eq := Some (c, v)\<rparr>"

text \<open>\<^verbatim>\<open>.order(c)\<close> is ascending; \<^verbatim>\<open>.order(c, { ascending: false })\<close> descending.\<close>

definition order_by :: "string \<Rightarrow> bool \<Rightarrow> request \<Rightarrow> request" where
  "order_by c ascending q = q\<lparr>q_order := Some (c, ascending)\<rparr>"

definition range_rows :: "int \<Rightarrow> int \<Rightarrow> request \<Rightarrow> request" where
  "range_rows lo hi q = q\<lparr>q_range := Some (lo, hi)\<rparr>"

definition limit_rows :: "int \<Rightarrow> request \<Rightarrow> request" where
  "limit_rows n q = q\<lparr>q_limit := Some n\<rparr>"

definition single_row :: "request \<Rightarrow> request" where
  "single_row q = q\<lparr>q_single := True\<rparr>"

subsection \<open>Rows and results\<close>

record Revenue =
  rev_month :: string
  rev_revenue :: int

text \<open>The embedded \<^verbatim>\<open>customers (name, email, image_url)\<close> of a raw invoice row.\<close>

record customers_embed =
  ce_name :: string
  ce_image_url :: string
  ce_email :: string

text \<open>
  A raw invoice row with its joined customers array. \<open>fetchLatestInvoices\<close> selects
  \<^verbatim>\<open>amount, customers(..), id\<close> only; it reads no other field.
\<close>

record 'd invoice_row =
  ir_id :: string
  ir_amount :: int
  ir_date :: 'd
  ir_status :: string
  ir_customer_id :: string
  ir_customers :: "customers_embed list"

record LatestInvoiceRaw =
  li_id :: string
  li_amount :: int
  li_name :: string
  li_email :: string
  li_image_url :: string

record amount_status =
  as_amount :: int
  as_status :: string

record CardData =
  numberOfCustomers :: nat
  numberOfInvoices :: nat
  totalPaidInvoices :: string
  totalPendingInvoices :: string

record 'd InvoicesTable =
  it_id :: string
  it_customer_id :: string
  it_amount :: int
  it_date :: 'd
  it_status :: string
  it_name :: string
  it_email :: string
  it_image_url :: string

record invoice_form_row =
  fr_id :: string
  fr_customer_id :: string
  fr_amount :: int
  fr_status :: string

record InvoiceForm =
  if_id :: string
  if_customer_id :: string
  if_amount :: real
  if_status :: string

record CustomerField =
  cf_id :: string
  cf_name :: string

text \<open>The embedded \<^verbatim>\<open>invoices (id, amount, status)\<close> of a raw customer row.\<close>

record invoices_embed =
  ie_id :: string
  ie_amount :: int
  ie_status :: string

record customer_row =
  cr_id :: string
  cr_name :: string
  cr_email :: string
  cr_image_url :: string
  cr_invoices :: "invoices_embed list option"

record CustomersTableType =
  ct_id :: string
  ct_name :: string
  ct_email :: string
  ct_image_url :: string
  total_invoices :: nat
  total_pending :: int
  total_paid :: int

subsection \<open>The operations\<close>

definition fetchRevenue_query :: request where
  "fetchRevenue_query = order_by ''month'' True (select_columns [Star] (from_table ''revenue''))"

definition fetchRevenue ::
  "(request \<Rightarrow> Revenue list response awaited) \<Rightarrow> thrown + Revenue list option" where
  "fetchRevenue supabase =
     try_catch
       (case await (supabase fetchRevenue_query) of
          Inl e \<Rightarrow> Inl e
        | Inr r \<Rightarrow> throw_if_error r (Inr (data r)))
       ''Failed to fetch revenue data.''"

definition fetchLatestInvoices_query :: request where
  "fetchLatestInvoices_query =
     limit_rows 5 (order_by ''date'' False
       (select_columns
          [Col ''amount'', Embed ''customers'' [''name'', ''image_url'', ''email''], Col ''id'']
          (from_table ''invoices'')))"

definition latest_invoice :: "'d invoice_row \<Rightarrow> thrown + LatestInvoiceRaw" where
  "latest_invoice invoice =
     (case get_prop (index0 (ir_customers invoice)) ce_name of Inl e \<Rightarrow> Inl e | Inr n \<Rightarrow>
      (case get_prop (index0 (ir_customers invoice)) ce_email of Inl e \<Rightarrow> Inl e | Inr m \<Rightarrow>
       (case get_prop (index0 (ir_customers invoice)) ce_image_url of Inl e \<Rightarrow> Inl e | Inr u \<Rightarrow>
          Inr \<lparr>li_id = ir_id invoice, li_amount = Number (ir_amount invoice),
               li_name = n, li_email = m, li_image_url = u\<rparr>)))"

definition fetchLatestInvoices ::
  "(request \<Rightarrow> 'd invoice_row list response awaited) \<Rightarrow> thrown + LatestInvoiceRaw list" where
  "fetchLatestInvoices supabase =
     try_catch
       (case await (supabase fetchLatestInvoices_query) of
          Inl e \<Rightarrow> Inl e
        | Inr r \<Rightarrow> throw_if_error r (map_data (data r) latest_invoice))
       ''Failed to fetch the latest invoices.''"

definition invoiceCount_query :: request where
  "invoiceCount_query = select_count_head [Star] (from_table ''invoices'')"

definition customerCount_query :: request where
  "customerCount_query = select_count_head [Star] (from_table ''customers'')"

definition invoiceStatus_query :: request where
  "invoiceStatus_query = select_columns [Col ''amount'', Col ''status''] (from_table ''invoices'')"

text \<open>
  \<open>formatCurrency\<close> is imported from \<^verbatim>\<open>./utils\<close>, which is not part of the sources at
  hand: it is a parameter.
\<close>

definition fetchCardData ::
  "(int \<Rightarrow> string) \<Rightarrow> (request \<Rightarrow> amount_status list response awaited) \<Rightarrow> thrown + CardData" where
  "fetchCardData formatCurrency supabase =
     try_catch
       (case Promise_all3 (supabase invoiceCount_query) (supabase customerCount_query)
               (supabase invoiceStatus_query) of
          Inl e \<Rightarrow> Inl e
        | Inr (r1, r2, r3) \<Rightarrow>
            (let invoiceCount = count r1;
                 customerCount = count r2;
                 invoiceStatus = data r3;
                 totalPaidInvoices = formatCurrency
                   (nullish
                      (optional_chain invoiceStatus
                         (foldl (\<lambda>acc inv. acc + (if as_status inv = ''paid'' then as_amount inv else 0)) 0))
                      0);
                 totalPendingInvoices = formatCurrency
                   (nullish
                      (optional_chain invoiceStatus
                         (foldl (\<lambda>acc inv. acc + (if as_status inv = ''pending'' then as_amount inv else 0)) 0))
                      0)
             in Inr \<lparr>numberOfCustomers = nullish customerCount 0,
                     numberOfInvoices = nullish invoiceCount 0,
                     totalPaidInvoices = totalPaidInvoices,
                     totalPendingInvoices = totalPendingInvoices\<rparr>))
       ''Failed to fetch card data.''"

definition ITEMS_PER_PAGE :: int where
  "ITEMS_PER_PAGE = 6"

definition fetchFilteredInvoices_query :: "string \<Rightarrow> int \<Rightarrow> request" where
  "fetchFilteredInvoices_query query currentPage =
     (let offset = (currentPage - 1) * ITEMS_PER_PAGE
      in range_rows offset (offset + ITEMS_PER_PAGE - 1)
           (order_by ''date'' False
              (or_filter
                 (''customers.name.ilike.%'' @ query @ ''%,customers.email.ilike.%'' @ query
                    @ ''%,amount.ilike.%'' @ query @ ''%,date.ilike.%'' @ query
                    @ ''%,status.ilike.%'' @ query @ ''%'')
                 (select_columns
                    [Col ''id'', Col ''amount'', Col ''date'', Col ''status'', Col ''customer_id'',
                     Embed ''customers'' [''name'', ''email'', ''image_url'']]
                    (from_table ''invoices'')))))"

definition table_invoice :: "'d invoice_row \<Rightarrow> thrown + 'd InvoicesTable" where
  "table_invoice invoice =
     (case get_prop (index0 (ir_customers invoice)) ce_name of Inl e \<Rightarrow> Inl e | Inr n \<Rightarrow>
      (case get_prop (index0 (ir_customers invoice)) ce_email of Inl e \<Rightarrow> Inl e | Inr m \<Rightarrow>
       (case get_prop (index0 (ir_customers invoice)) ce_image_url of Inl e \<Rightarrow> Inl e | Inr u \<Rightarrow>
          Inr \<lparr>it_id = ir_id invoice, it_customer_id = ir_customer_id invoice,
               it_amount = ir_amount invoice, it_date = ir_date invoice,
               it_status = ir_status invoice,
               it_name = n, it_email = m, it_image_url = u\<rparr>)))"

definition fetchFilteredInvoices ::
  "(request \<Rightarrow> 'd invoice_row list response awaited) \<Rightarrow> string \<Rightarrow> int
     \<Rightarrow> thrown + 'd InvoicesTable list" where
  "fetchFilteredInvoices supabase query currentPage =
     try_catch
       (case await (supabase (fetchFilteredInvoices_query query currentPage)) of
          Inl e \<Rightarrow> Inl e
        | Inr r \<Rightarrow> throw_if_error r (map_data (data r) table_invoice))
       ''Failed to fetch invoices.''"

definition fetchInvoicesPages_query :: "string \<Rightarrow> request" where
  "fetchInvoicesPages_query query =
     or_filter
       (''customers.name.ilike.%'' @ query @ ''%,customers.email.ilike.%'' @ query
          @ ''%,amount.ilike.%'' @ query @ ''%,date.ilike.%'' @ query
          @ ''%,status.ilike.%'' @ query @ ''%'')
       (select_count_head [Star] (from_table ''invoices''))"

definition fetchInvoicesPages ::
  "(request \<Rightarrow> 'r response awaited) \<Rightarrow> string \<Rightarrow> thrown + int" where
  "fetchInvoicesPages supabase query =
     try_catch
       (case await (supabase (fetchInvoicesPages_query query)) of
          Inl e \<Rightarrow> Inl e
        | Inr r \<Rightarrow>
            throw_if_error r
              (let totalPages = \<lceil>real (nullish (count r) 0) / real_of_int ITEMS_PER_PAGE\<rceil>
               in Inr totalPages))
       ''Failed to fetch total number of invoices.''"

definition fetchInvoiceById_query :: "string \<Rightarrow> request" where
  "fetchInvoiceById_query id' =
     single_row (eq_filter ''id'' id'
       (select_columns [Col ''id'', Col ''customer_id'', Col ''amount'', Col ''status'']
          (from_table ''invoices'')))"

text \<open>
  \<^verbatim>\<open>{ ...data, amount: data.amount / 100 }\<close>: the spread copies the fields of the row,
  then \<^verbatim>\<open>amount\<close> is overwritten. When \<^verbatim>\<open>data\<close> is \<^verbatim>\<open>null\<close> the spread copies
  nothing and reading \<^verbatim>\<open>data.amount\<close> throws.
\<close>

definition fetchInvoiceById ::
  "(request \<Rightarrow> invoice_form_row response awaited) \<Rightarrow> string \<Rightarrow> thrown + InvoiceForm" where
  "fetchInvoiceById supabase id' =
     try_catch
       (case await (supabase (fetchInvoiceById_query id')) of
          Inl e \<Rightarrow> Inl e
        | Inr r \<Rightarrow>
            throw_if_error r
              (case data r of
                 None \<Rightarrow> Inl TypeError
               | Some d \<Rightarrow>
                   Inr \<lparr>if_id = fr_id d, if_customer_id = fr_customer_id d,
                        if_amount = real_of_int (fr_amount d) / 100, if_status = fr_status d\<rparr>))
       ''Failed to fetch invoice.''"

definition fetchCustomers_query :: request where
  "fetchCustomers_query =
     order_by ''name'' True (select_columns [Col ''id'', Col ''name''] (from_table ''customers''))"

definition fetchCustomers ::
  "(request \<Rightarrow> CustomerField list response awaited) \<Rightarrow> thrown + CustomerField list option" where
  "fetchCustomers supabase =
     try_catch
       (case await (supabase fetchCustomers_query) of
          Inl e \<Rightarrow> Inl e
        | Inr r \<Rightarrow> throw_if_error r (Inr (data r)))
       ''Failed to fetch all customers.''"

definition fetchFilteredCustomers_query :: "string \<Rightarrow> request" where
  "fetchFilteredCustomers_query query =
     order_by ''name'' True
       (or_filter (''name.ilike.%'' @ query @ ''%,email.ilike.%'' @ query @ ''%'')
          (select_columns
             [Col ''id'', Col ''name'', Col ''email'', Col ''image_url'',
              Embed ''invoices'' [''id'', ''amount'', ''status'']]
             (from_table ''customers'')))"

definition table_customer :: "customer_row \<Rightarrow> CustomersTableType" where
  "table_customer customer =
     (let totalPending =
            nullish
              (optional_chain (cr_invoices customer)
                 (foldl (\<lambda>acc inv. acc + (if ie_status inv = ''pending'' then ie_amount inv else 0)) 0))
              0;
          totalPaid =
            nullish
              (optional_chain (cr_invoices customer)
                 (foldl (\<lambda>acc inv. acc + (if ie_status inv = ''paid'' then ie_amount inv else 0)) 0))
              0
      in \<lparr>ct_id = cr_id customer, ct_name = cr_name customer, ct_email = cr_email customer,
          ct_image_url = cr_image_url customer,
          total_invoices = nullish (optional_chain (cr_invoices customer) length) 0,
          total_pending = totalPending,
          total_paid = totalPaid\<rparr>)"

definition fetchFilteredCustomers ::
  "(request \<Rightarrow> customer_row list response awaited) \<Rightarrow> string \<Rightarrow> thrown + CustomersTableType list" where
  "fetchFilteredCustomers supabase query =
     try_catch
       (case await (supabase (fetchFilteredCustomers_query query)) of
          Inl e \<Rightarrow> Inl e
        | Inr r \<Rightarrow> throw_if_error r (map_data (data r) (\<lambda>customer. Inr (table_customer customer))))
       ''Failed to fetch customer table.''"

subsection \<open>The database collaborator\<close>

text \<open>
  The client object comes from \<^verbatim>\<open>@/lib/supabase\<close>, which is not part of the sources at
  hand. The operations above take it as a parameter. Where a property of an operation
  depends on what the collaborator answers (which rows, in which order, how many), it is
  stated against the model below, written from section 6 of the specification: a table
  of invoices, a table of customers, each invoice referring to a customer by
  \<open>customer_id\<close>, and a query answered by filtering, ordering and cutting the joined
  rows.
\<close>

record 'd invoice =
  inv_id :: string
  inv_customer_id :: string
  inv_amount :: int
  inv_date :: 'd
  inv_status :: string

record customer =
  cust_id :: string
  cust_name :: string
  cust_email :: string
  cust_image_url :: string

record 'd database =
  invoices :: "'d invoice list"
  customers :: "customer list"

text \<open>
  Modelled from the spec: the join of invoices with customers. The embedded
  \<open>customers\<close> array of an invoice holds the customers whose id is the invoice's
  \<open>customer_id\<close>.
\<close>

definition embed_customer :: "customer \<Rightarrow> customers_embed" where
  "embed_customer c = \<lparr>ce_name = cust_name c, ce_image_url = cust_image_url c, ce_email = cust_email c\<rparr>"

definition joined_row :: "'d database \<Rightarrow> 'd invoice \<Rightarrow> 'd invoice_row" where
  "joined_row db i =
     \<lparr>ir_id = inv_id i, ir_amount = inv_amount i, ir_date = inv_date i,
      ir_status = inv_status i, ir_customer_id = inv_customer_id i,
      ir_customers =
        map embed_customer (filter (\<lambda>c. cust_id c = inv_customer_id i) (customers db))\<rparr>"

definition joined_rows :: "'d database \<Rightarrow> 'd invoice_row list" where
  "joined_rows db = map (joined_row db) (invoices db)"

text \<open>
  Modelled from the spec: the relationship of section 6, every invoice references a
  customer of the customers table.
\<close>

definition references_ok :: "'d database \<Rightarrow> bool" where
  "references_ok db =
     list_all (\<lambda>i. list_ex (\<lambda>c. cust_id c = inv_customer_id i) (customers db)) (invoices db)"

text \<open>
  Modelled from the spec: \<^verbatim>\<open>.order\<close>, \<^verbatim>\<open>.range\<close> and \<^verbatim>\<open>.limit\<close> of the collaborator on
  invoice rows. The model orders by the \<open>date\<close> column, the one ordering the invoice
  operations ask for; \<^verbatim>\<open>.range(lo, hi)\<close> keeps the rows at positions \<open>lo\<close> to \<open>hi\<close>,
  counted from 0, both included. The specification does not say what the collaborator
  answers to a range with a negative bound or to an ordering by another column: the
  model answers with an error there, and no property below rests on that choice.
\<close>

definition order_rows ::
  "(string \<times> bool) option \<Rightarrow> ('d::linorder) invoice_row list \<Rightarrow> 'd invoice_row list option" where
  "order_rows ord rows =
     (case ord of
        None \<Rightarrow> Some rows
      | Some (c, ascending) \<Rightarrow>
          if c = ''date''
          then Some (if ascending then sort_key ir_date rows else rev (sort_key ir_date rows))
          else None)"

definition window_rows :: "(int \<times> int) option \<Rightarrow> 'a list \<Rightarrow> 'a list option" where
  "window_rows rg rows =
     (case rg of
        None \<Rightarrow> Some rows
      | Some (lo, hi) \<Rightarrow>
          if 0 \<le> lo \<and> lo \<le> hi then Some (take (nat (hi - lo + 1)) (drop (nat lo) rows))
          else None)"

definition limit_to :: "int option \<Rightarrow> 'a list \<Rightarrow> 'a list" where
  "limit_to l rows = (case l of None \<Rightarrow> rows | Some n \<Rightarrow> take (nat n) rows)"

definition refused :: "'a response" where
  "refused = \<lparr>data = None, count = None, error = Some (PostgrestError ''not modelled'')\<rparr>"

text \<open>
  Modelled from the spec: the collaborator answering a query on the invoices table
  (section 6: filter, order, paginate, return rows or a count). The meaning of a filter
  string is a parameter \<open>matches\<close> (the specification leaves the semantics of the
  substring match on numeric and date columns open). Queries on another table, with
  \<^verbatim>\<open>.eq\<close> or with \<^verbatim>\<open>.single()\<close> are outside this model.
\<close>

definition supabase_invoices ::
  "(string \<Rightarrow> 'd invoice_row \<Rightarrow> bool) \<Rightarrow> ('d::linorder) database \<Rightarrow> request
     \<Rightarrow> 'd invoice_row list response awaited" where
  "supabase_invoices matches db q =
     (if q_table q \<noteq> ''invoices'' \<or> q_eq q \<noteq> None \<or> q_single q then Resolved refused
      else
        (let matched =
               (case q_or q of
                  None \<Rightarrow> joined_rows db
                | Some f \<Rightarrow> filter (matches f) (joined_rows db))
         in case order_rows (q_order q) matched of
              None \<Rightarrow> Resolved refused
            | Some ordered \<Rightarrow>
                (case window_rows (q_range q) ordered of
                   None \<Rightarrow> Resolved refused
                 | Some page \<Rightarrow>
                     Resolved
                       \<lparr>data = (if q_head q then None else Some (limit_to (q_limit q) page)),
                        count = (if q_count q then Some (length matched) else None),
                        error = None\<rparr>)))"

text \<open>
  The filter of the invoice search as the specification words it: one \<open>ilike\<close> clause per
  column (customer name, customer email, amount, date, status), joined by OR; and the
  number of rows it matches.
\<close>

definition search_filter :: "string \<Rightarrow> string" where
  "search_filter query =
     ''customers.name.ilike.%'' @ query @ ''%,customers.email.ilike.%'' @ query
       @ ''%,amount.ilike.%'' @ query @ ''%,date.ilike.%'' @ query
       @ ''%,status.ilike.%'' @ query @ ''%''"

definition totalMatches ::
  "(string \<Rightarrow> 'd invoice_row \<Rightarrow> bool) \<Rightarrow> 'd database \<Rightarrow> string \<Rightarrow> nat" where
  "totalMatches matches db query =
     length (filter (matches (search_filter query)) (joined_rows db))"

text \<open>The rows the row-mapping steps produce when every customers array is non-empty.\<close>

definition latest_of :: "'d invoice_row \<Rightarrow> LatestInvoiceRaw" where
  "latest_of r =
     \<lparr>li_id = ir_id r, li_amount = ir_amount r,
      li_name = ce_name (hd (ir_customers r)), li_email = ce_email (hd (ir_customers r)),
      li_image_url = ce_image_url (hd (ir_customers r))\<rparr>"

definition table_of :: "'d invoice_row \<Rightarrow> 'd InvoicesTable" where
  "table_of r =
     \<lparr>it_id = ir_id r, it_customer_id = ir_customer_id r, it_amount = ir_amount r,
      it_date = ir_date r, it_status = ir_status r,
      it_name = ce_name (hd (ir_customers r)), it_email = ce_email (hd (ir_customers r)),
      it_image_url = ce_image_url (hd (ir_customers r))\<rparr>"

text \<open>The joined invoices of a raw customer row, none when the field is absent.\<close>

definition joined_invoices :: "customer_row \<Rightarrow> invoices_embed list" where
  "joined_invoices c = (case cr_invoices c of None \<Rightarrow> [] | Some is \<Rightarrow> is)"

subsection \<open>Example data\<close>

text \<open>
  Concrete inputs on which the properties below are evaluated: a database of eight
  invoices and two customers (dates written as the integer \<open>yyyymmdd\<close>), two readings of
  a filter string, and clients that answer with given responses.
\<close>

definition example_db :: "int database" where
  "example_db =
     \<lparr>invoices =
        [\<lparr>inv_id = ''i1'', inv_customer_id = ''c1'', inv_amount = 10000, inv_date = 20221106, inv_status = ''paid''\<rparr>,
         \<lparr>inv_id = ''i2'', inv_customer_id = ''c2'', inv_amount = 5000, inv_date = 20221114, inv_status = ''pending''\<rparr>,
         \<lparr>inv_id = ''i3'', inv_customer_id = ''c1'', inv_amount = 2000, inv_date = 20221029, inv_status = ''paid''\<rparr>,
         \<lparr>inv_id = ''i4'', inv_customer_id = ''c2'', inv_amount = 44800, inv_date = 20230910, inv_status = ''paid''\<rparr>,
         \<lparr>inv_id = ''i5'', inv_customer_id = ''c1'', inv_amount = 34577, inv_date = 20230805, inv_status = ''pending''\<rparr>,
         \<lparr>inv_id = ''i6'', inv_customer_id = ''c2'', inv_amount = 54246, inv_date = 20230716, inv_status = ''pending''\<rparr>,
         \<lparr>inv_id = ''i7'', inv_customer_id = ''c1'', inv_amount = 666, inv_date = 20230627, inv_status = ''pending''\<rparr>,
         \<lparr>inv_id = ''i8'', inv_customer_id = ''c2'', inv_amount = 32545, inv_date = 20230609, inv_status = ''paid''\<rparr>],
      customers =
        [\<lparr>cust_id = ''c1'', cust_name = ''Evil Rabbit'', cust_email = ''evil@rabbit.com'',
          cust_image_url = ''/customers/evil-rabbit.png''\<rparr>,
         \<lparr>cust_id = ''c2'', cust_name = ''Delba de Oliveira'', cust_email = ''delba@oliveira.com'',
          cust_image_url = ''/customers/delba-de-oliveira.png''\<rparr>]\<rparr>"

text \<open>A filter every row satisfies, and one satisfied by the rows whose status is the query.\<close>

definition match_all :: "string \<Rightarrow> int invoice_row \<Rightarrow> bool" where
  "match_all f r = True"

definition match_status :: "string \<Rightarrow> int invoice_row \<Rightarrow> bool" where
  "match_status f r = (f = search_filter (ir_status r))"

definition ok_count :: "nat \<Rightarrow> 'a response" where
  "ok_count n = \<lparr>data = None, count = Some n, error = None\<rparr>"

definition ok_rows :: "'a \<Rightarrow> 'a response" where
  "ok_rows rows = \<lparr>data = Some rows, count = None, error = None\<rparr>"

definition failed :: "'a response" where
  "failed = \<lparr>data = None, count = None, error = Some (PostgrestError ''connection lost'')\<rparr>"

text \<open>
  A client that answers the invoice count query with \<open>r1\<close>, the customer count query with
  \<open>r2\<close> and any other query with \<open>r3\<close>.
\<close>

definition card_client ::
  "amount_status list response \<Rightarrow> amount_status list response \<Rightarrow> amount_status list response
     \<Rightarrow> request \<Rightarrow> amount_status list response awaited" where
  "card_client r1 r2 r3 q =
     Resolved (if q = invoiceCount_query then r1 else if q = customerCount_query then r2 else r3)"

text \<open>A client that answers every query with the same response.\<close>

definition const_client :: "'a response \<Rightarrow> request \<Rightarrow> 'a response awaited" where
  "const_client r q = Resolved r"

text \<open>A client that answers with \<open>rows\<close> when asked for the range \<open>rg\<close>, with no rows otherwise.\<close>

definition range_client ::
  "(int \<times> int) \<Rightarrow> int invoice_row list \<Rightarrow> request \<Rightarrow> int invoice_row list response awaited" where
  "range_client rg rows q = Resolved (if q_range q = Some rg then ok_rows rows else ok_rows [])"

definition rabbit :: customers_embed where
  "rabbit = \<lparr>ce_name = ''Evil Rabbit'', ce_image_url = ''/customers/evil-rabbit.png'',
     ce_email = ''evil@rabbit.com''\<rparr>"

definition row_with :: "customers_embed list \<Rightarrow> int invoice_row" where
  "row_with cs = \<lparr>ir_id = ''i1'', ir_amount = 10000, ir_date = 20221106, ir_status = ''paid'',
     ir_customer_id = ''c1'', ir_customers = cs\<rparr>"

definition example_customers :: "customer_row list" where
  "example_customers =
     [\<lparr>cr_id = ''c1'', cr_name = ''Evil Rabbit'', cr_email = ''evil@rabbit.com'',
       cr_image_url = ''/customers/evil-rabbit.png'',
       cr_invoices = Some [\<lparr>ie_id = ''i1'', ie_amount = 10000, ie_status = ''paid''\<rparr>,
                           \<lparr>ie_id = ''i2'', ie_amount = 5000, ie_status = ''pending''\<rparr>,
                           \<lparr>ie_id = ''i3'', ie_amount = 2000, ie_status = ''paid''\<rparr>]\<rparr>,
      \<lparr>cr_id = ''c2'', cr_name = ''Lee Robinson'', cr_email = ''lee@robinson.com'',
       cr_image_url = ''/customers/lee-robinson.png'', cr_invoices = Some []\<rparr>,
      \<lparr>cr_id = ''c3'', cr_name = ''Amy Burns'', cr_email = ''amy@burns.com'',
       cr_image_url = ''/customers/amy-burns.png'', cr_invoices = None\<rparr>]"

definition example_invoices :: "amount_status list" where
  "example_invoices =
     [\<lparr>as_amount = 10000, as_status = ''paid''\<rparr>,
      \<lparr>as_amount = 5000, as_status = ''pending''\<rparr>,
      \<lparr>as_amount = 2000, as_status = ''paid''\<rparr>]"

section \<open>Properties\<close>

subsection \<open>Auxiliary facts\<close>

lemmas query_defs = from_table_def select_columns_def select_count_head_def or_filter_def
  eq_filter_def order_by_def range_rows_def limit_rows_def single_row_def

lemma map_throwing_cases:
  assumes "\<And>x. f x = (if P x then Inr (g x) else Inl e)"
  shows "map_throwing f xs = (if list_all P xs then Inr (map g xs) else Inl e)"
  by (induction xs) (simp_all add: assms)

lemma map_throwing_Inr: "map_throwing (\<lambda>x. Inr (f x)) xs = Inr (map f xs)"
  by (induction xs) simp_all

lemma latest_invoice_eq:
  "latest_invoice r = (if ir_customers r \<noteq> [] then Inr (latest_of r) else Inl TypeError)"
  by (cases "ir_customers r")
    (simp_all add: latest_invoice_def latest_of_def index0_def get_prop_def Number_def)

lemma table_invoice_eq:
  "table_invoice r = (if ir_customers r \<noteq> [] then Inr (table_of r) else Inl TypeError)"
  by (cases "ir_customers r")
    (simp_all add: table_invoice_def table_of_def index0_def get_prop_def)

text \<open>The \<^verbatim>\<open>reduce\<close> of the totals is a sum over the rows with the status.\<close>

lemma foldl_cond_sum:
  "foldl (\<lambda>acc inv. acc + (if P inv then f inv else 0)) a xs = a + sum_list (map f (filter P xs))"
  for a :: int
  by (induction xs arbitrary: a) simp_all

lemma ceiling_div6: "\<lceil>real n / 6\<rceil> = int ((n + 5) div 6)"
  by linarith

text \<open>What is caught is never thrown again: an operation throws its own \<open>Error\<close> only.\<close>

lemma try_catch_Inl: "try_catch body msg = Inl e \<Longrightarrow> e = Error msg"
  by (cases body) (simp_all add: try_catch_def)

subsection \<open>The failure path of the operations that test the error field\<close>

text \<open>
  Seven of the eight operations run \<^verbatim>\<open>if (error) throw error;\<close> on the response: a response
  with an error makes them throw \<open>Error\<close> with their own message, and so does a rejected
  promise.
\<close>

lemma fetchRevenue_error:
  "supabase fetchRevenue_query = Resolved r \<Longrightarrow> error r = Some e \<Longrightarrow>
   fetchRevenue supabase = Inl (Error ''Failed to fetch revenue data.'')"
  by (simp add: fetchRevenue_def await_def throw_if_error_def try_catch_def)

lemma fetchLatestInvoices_error:
  "supabase fetchLatestInvoices_query = Resolved r \<Longrightarrow> error r = Some e \<Longrightarrow>
   fetchLatestInvoices supabase = Inl (Error ''Failed to fetch the latest invoices.'')"
  by (simp add: fetchLatestInvoices_def await_def throw_if_error_def try_catch_def)

lemma fetchFilteredInvoices_error:
  "supabase (fetchFilteredInvoices_query q p) = Resolved r \<Longrightarrow> error r = Some e \<Longrightarrow>
   fetchFilteredInvoices supabase q p = Inl (Error ''Failed to fetch invoices.'')"
  by (simp add: fetchFilteredInvoices_def await_def throw_if_error_def try_catch_def)

lemma fetchInvoicesPages_error:
  "supabase (fetchInvoicesPages_query q) = Resolved r \<Longrightarrow> error r = Some e \<Longrightarrow>
   fetchInvoicesPages supabase q = Inl (Error ''Failed to fetch total number of invoices.'')"
  by (simp add: fetchInvoicesPages_def await_def throw_if_error_def try_catch_def)

lemma fetchInvoiceById_error:
  "supabase (fetchInvoiceById_query i) = Resolved r \<Longrightarrow> error r = Some e \<Longrightarrow>
   fetchInvoiceById supabase i = Inl (Error ''Failed to fetch invoice.'')"
  by (simp add: fetchInvoiceById_def await_def throw_if_error_def try_catch_def)

lemma fetchCustomers_error:
  "supabase fetchCustomers_query = Resolved r \<Longrightarrow> error r = Some e \<Longrightarrow>
   fetchCustomers supabase = Inl (Error ''Failed to fetch all customers.'')"
  by (simp add: fetchCustomers_def await_def throw_if_error_def try_catch_def)

lemma fetchFilteredCustomers_error:
  "supabase (fetchFilteredCustomers_query q) = Resolved r \<Longrightarrow> error r = Some e \<Longrightarrow>
   fetchFilteredCustomers supabase q = Inl (Error ''Failed to fetch customer table.'')"
  by (simp add: fetchFilteredCustomers_def await_def throw_if_error_def try_catch_def)

lemma rejected_is_wrapped:
  "supabase fetchRevenue_query = Rejected x \<Longrightarrow>
     fetchRevenue supabase = Inl (Error ''Failed to fetch revenue data.'')"
  "supabase' fetchLatestInvoices_query = Rejected x \<Longrightarrow>
     fetchLatestInvoices supabase' = Inl (Error ''Failed to fetch the latest invoices.'')"
  "supabase' (fetchFilteredInvoices_query q p) = Rejected x \<Longrightarrow>
     fetchFilteredInvoices supabase' q p = Inl (Error ''Failed to fetch invoices.'')"
  "supabase2 (fetchInvoicesPages_query q) = Rejected x \<Longrightarrow>
     fetchInvoicesPages supabase2 q = Inl (Error ''Failed to fetch total number of invoices.'')"
  "supabase3 (fetchInvoiceById_query i) = Rejected x \<Longrightarrow>
     fetchInvoiceById supabase3 i = Inl (Error ''Failed to fetch invoice.'')"
  "supabase4 fetchCustomers_query = Rejected x \<Longrightarrow>
     fetchCustomers supabase4 = Inl (Error ''Failed to fetch all customers.'')"
  "supabase5 (fetchFilteredCustomers_query q) = Rejected x \<Longrightarrow>
     fetchFilteredCustomers supabase5 q = Inl (Error ''Failed to fetch customer table.'')"
  by (simp_all add: fetchRevenue_def fetchLatestInvoices_def fetchFilteredInvoices_def
      fetchInvoicesPages_def fetchInvoiceById_def fetchCustomers_def fetchFilteredCustomers_def
      await_def try_catch_def)

subsection \<open>The card data\<close>

lemma card_queries_distinct:
  "invoiceCount_query \<noteq> customerCount_query" "invoiceCount_query \<noteq> invoiceStatus_query"
  "customerCount_query \<noteq> invoiceStatus_query"
  by (simp_all add: invoiceCount_query_def customerCount_query_def invoiceStatus_query_def
      query_defs)

lemma card_client_answers:
  "card_client r1 r2 r3 invoiceCount_query = Resolved r1"
  "card_client r1 r2 r3 customerCount_query = Resolved r2"
  "card_client r1 r2 r3 invoiceStatus_query = Resolved r3"
  by (simp_all add: card_client_def card_queries_distinct card_queries_distinct [symmetric])

text \<open>
  \<open>fetchCardData\<close> destructures \<^verbatim>\<open>count\<close> and \<^verbatim>\<open>data\<close> out of the three responses and
  never reads \<^verbatim>\<open>error\<close>: once the three promises resolve it returns, whatever the
  responses hold.
\<close>

lemma fetchCardData_resolved:
  assumes "supabase invoiceCount_query = Resolved r1"
    and "supabase customerCount_query = Resolved r2"
    and "supabase invoiceStatus_query = Resolved r3"
  shows "fetchCardData formatCurrency supabase =
    Inr \<lparr>numberOfCustomers = nullish (count r2) 0,
         numberOfInvoices = nullish (count r1) 0,
         totalPaidInvoices = formatCurrency
           (case data r3 of None \<Rightarrow> 0
            | Some invs \<Rightarrow> sum_list (map as_amount (filter (\<lambda>i. as_status i = ''paid'') invs))),
         totalPendingInvoices = formatCurrency
           (case data r3 of None \<Rightarrow> 0
            | Some invs \<Rightarrow> sum_list (map as_amount (filter (\<lambda>i. as_status i = ''pending'') invs)))\<rparr>"
  using assms
  by (simp add: fetchCardData_def Promise_all3_def try_catch_def nullish_def optional_chain_def
      foldl_cond_sum Let_def split: option.splits)

lemma fetchCardData_rejected:
  "supabase invoiceCount_query = Rejected x \<or> supabase customerCount_query = Rejected x
     \<or> supabase invoiceStatus_query = Rejected x \<Longrightarrow>
   fetchCardData formatCurrency supabase = Inl (Error ''Failed to fetch card data.'')"
  by (auto simp add: fetchCardData_def Promise_all3_def try_catch_def split: awaited.splits)

text \<open>
  Claim C1: if any one of the three sub-requests of \<open>fetchCardData\<close> fails, the whole
  operation fails with its generic error and no partial or degraded result is returned.

  The code does not do this when the failure is an error response. Below, each of the
  three sub-requests in turn answers \<^verbatim>\<open>{data: null, count: null, error: ..}\<close> while the other
  two succeed: every time the operation returns a card, with 0 (or the formatted 0) in
  place of the figure that could not be fetched. Only a rejected promise makes it fail
  (\<open>fetchCardData_rejected\<close>).
\<close>

theorem fetchCardData_partial_failure_degraded:
  "fetchCardData formatCurrency (card_client failed (ok_count 2) (ok_rows example_invoices))
   = Inr \<lparr>numberOfCustomers = 2, numberOfInvoices = 0,
          totalPaidInvoices = formatCurrency 12000, totalPendingInvoices = formatCurrency 5000\<rparr> \<and>
   fetchCardData formatCurrency (card_client (ok_count 3) failed (ok_rows example_invoices))
   = Inr \<lparr>numberOfCustomers = 0, numberOfInvoices = 3,
          totalPaidInvoices = formatCurrency 12000, totalPendingInvoices = formatCurrency 5000\<rparr> \<and>
   fetchCardData formatCurrency (card_client (ok_count 3) (ok_count 2) failed)
   = Inr \<lparr>numberOfCustomers = 2, numberOfInvoices = 3,
          totalPaidInvoices = formatCurrency 0, totalPendingInvoices = formatCurrency 0\<rparr>"
  by (simp add: fetchCardData_resolved [OF card_client_answers] ok_count_def ok_rows_def
      failed_def nullish_def example_invoices_def)

text \<open>
  Claim C2: for every operation and every error surfaced by the collaborator (a non-null
  error field in its response), the operation raises exactly one error carrying its own
  generic message, and never the raw error.

  Seven operations do (the lemmas \<open>fetchRevenue_error\<close> to \<open>fetchFilteredCustomers_error\<close>
  above, and \<open>try_catch_Inl\<close>). \<open>fetchCardData\<close> does not: whatever the three responses
  hold, error fields included, it raises nothing and returns a card computed from the
  \<^verbatim>\<open>count\<close> and \<^verbatim>\<open>data\<close> fields alone.
\<close>

theorem fetchCardData_error_not_raised:
  "fetchCardData formatCurrency (card_client r1 r2 r3) =
    Inr \<lparr>numberOfCustomers = nullish (count r2) 0,
         numberOfInvoices = nullish (count r1) 0,
         totalPaidInvoices = formatCurrency
           (case data r3 of None \<Rightarrow> 0
            | Some invs \<Rightarrow> sum_list (map as_amount (filter (\<lambda>i. as_status i = ''paid'') invs))),
         totalPendingInvoices = formatCurrency
           (case data r3 of None \<Rightarrow> 0
            | Some invs \<Rightarrow> sum_list (map as_amount (filter (\<lambda>i. as_status i = ''pending'') invs)))\<rparr>"
  by (rule fetchCardData_resolved [OF card_client_answers])

text \<open>
  Claim C6: \<open>totalPaidInvoices\<close> is the formatted sum of the amounts of exactly the invoices
  with status "paid", \<open>totalPendingInvoices\<close> the formatted sum over exactly those with
  status "pending"; an empty invoice set gives the formatted 0 for both. The invoice set
  is the rows the collaborator returns for the \<^verbatim>\<open>amount, status\<close> query; the formatter is
  any function.
\<close>

theorem fetchCardData_totals:
  assumes "supabase invoiceCount_query = Resolved r1"
    and "supabase customerCount_query = Resolved r2"
    and "supabase invoiceStatus_query = Resolved r3"
    and "data r3 = Some invs"
  shows "\<exists>card. fetchCardData formatCurrency supabase = Inr card \<and>
      totalPaidInvoices card =
        formatCurrency (sum_list (map as_amount (filter (\<lambda>i. as_status i = ''paid'') invs))) \<and>
      totalPendingInvoices card =
        formatCurrency (sum_list (map as_amount (filter (\<lambda>i. as_status i = ''pending'') invs))) \<and>
      (invs = [] \<longrightarrow>
         totalPaidInvoices card = formatCurrency 0 \<and> totalPendingInvoices card = formatCurrency 0)"
  using assms(4) by (auto simp add: fetchCardData_resolved [OF assms(1-3)])

text \<open>The scenario of the specification: 10000 paid, 5000 pending, 2000 paid.\<close>

theorem fetchCardData_totals_witness:
  "\<forall>formatCurrency. \<exists>card.
     fetchCardData formatCurrency
       (card_client (ok_count 3) (ok_count 2) (ok_rows example_invoices)) = Inr card \<and>
     totalPaidInvoices card = formatCurrency 12000 \<and>
     totalPendingInvoices card = formatCurrency 5000"
proof
  fix formatCurrency :: "int \<Rightarrow> string"
  have h: "data (ok_rows example_invoices) = Some example_invoices"
    by (simp add: ok_rows_def)
  show "\<exists>card. fetchCardData formatCurrency
       (card_client (ok_count 3) (ok_count 2) (ok_rows example_invoices)) = Inr card \<and>
     totalPaidInvoices card = formatCurrency 12000 \<and>
     totalPendingInvoices card = formatCurrency 5000"
    using fetchCardData_totals [OF card_client_answers h, of formatCurrency]
    by (simp add: example_invoices_def)
qed

subsection \<open>The row-mapping steps\<close>

lemma fetchFilteredInvoices_rows:
  assumes "supabase (fetchFilteredInvoices_query q p) = Resolved r"
    and "error r = None" and "data r = Some rows"
  shows "fetchFilteredInvoices supabase q p =
    (if list_all (\<lambda>r. ir_customers r \<noteq> []) rows then Inr (map table_of rows)
     else Inl (Error ''Failed to fetch invoices.''))"
  using assms
  by (simp add: fetchFilteredInvoices_def await_def throw_if_error_def map_data_def
      map_throwing_cases [where f = table_invoice, OF table_invoice_eq] try_catch_def)

lemma fetchLatestInvoices_rows:
  assumes "supabase fetchLatestInvoices_query = Resolved r"
    and "error r = None" and "data r = Some rows"
  shows "fetchLatestInvoices supabase =
    (if list_all (\<lambda>r. ir_customers r \<noteq> []) rows then Inr (map latest_of rows)
     else Inl (Error ''Failed to fetch the latest invoices.''))"
  using assms
  by (simp add: fetchLatestInvoices_def await_def throw_if_error_def map_data_def
      map_throwing_cases [where f = latest_invoice, OF latest_invoice_eq] try_catch_def)

text \<open>
  Claim C9: the row-mapping steps of \<open>fetchLatestInvoices\<close> and \<open>fetchFilteredInvoices\<close>
  read \<^verbatim>\<open>customers[0]\<close> without an emptiness check. When every row has a non-empty
  customers array the indexing never yields \<^verbatim>\<open>undefined\<close> and both maps produce their
  rows; when some row has an empty array both maps throw a \<open>TypeError\<close> (which the
  operation then replaces by its own error, see \<open>fetchLatestInvoices_rows\<close> and
  \<open>fetchFilteredInvoices_rows\<close>).
\<close>

theorem customers0_needs_nonempty:
  "(list_all (\<lambda>r. ir_customers r \<noteq> []) rows \<longrightarrow>
      list_all (\<lambda>r. index0 (ir_customers r) \<noteq> None) rows \<and>
      map_throwing latest_invoice rows = Inr (map latest_of rows) \<and>
      map_throwing table_invoice rows = Inr (map table_of rows)) \<and>
   (\<not> list_all (\<lambda>r. ir_customers r \<noteq> []) rows \<longrightarrow>
      map_throwing latest_invoice rows = Inl TypeError \<and>
      map_throwing table_invoice rows = Inl TypeError)"
proof -
  have "index0 xs \<noteq> None \<longleftrightarrow> xs \<noteq> []" for xs :: "customers_embed list"
    by (cases xs) (simp_all add: index0_def)
  then show ?thesis
    by (simp add: map_throwing_cases [where f = latest_invoice, OF latest_invoice_eq]
        map_throwing_cases [where f = table_invoice, OF table_invoice_eq])
qed

theorem customers0_needs_nonempty_witness:
  "list_all (\<lambda>r. ir_customers r \<noteq> []) [row_with [rabbit]] \<and>
   map_throwing latest_invoice [row_with [rabbit]] =
     Inr [\<lparr>li_id = ''i1'', li_amount = 10000, li_name = ''Evil Rabbit'',
           li_email = ''evil@rabbit.com'', li_image_url = ''/customers/evil-rabbit.png''\<rparr>] \<and>
   map_throwing table_invoice [row_with [rabbit]] =
     Inr [\<lparr>it_id = ''i1'', it_customer_id = ''c1'', it_amount = 10000, it_date = 20221106,
           it_status = ''paid'', it_name = ''Evil Rabbit'',
           it_email = ''evil@rabbit.com'', it_image_url = ''/customers/evil-rabbit.png''\<rparr>] \<and>
   \<not> list_all (\<lambda>r. ir_customers r \<noteq> []) [row_with [rabbit], row_with []] \<and>
   map_throwing latest_invoice [row_with [rabbit], row_with []] = Inl TypeError \<and>
   map_throwing table_invoice [row_with [rabbit], row_with []] = Inl TypeError"
  using customers0_needs_nonempty [of "[row_with [rabbit]]"]
    customers0_needs_nonempty [of "[row_with [rabbit], row_with []]"]
  by (simp add: row_with_def rabbit_def latest_of_def table_of_def)

subsection \<open>The page request\<close>

lemma fetchFilteredInvoices_query_fields:
  "q_table (fetchFilteredInvoices_query q p) = ''invoices''"
  "q_eq (fetchFilteredInvoices_query q p) = None"
  "q_single (fetchFilteredInvoices_query q p) = False"
  "q_or (fetchFilteredInvoices_query q p) = Some (search_filter q)"
  "q_order (fetchFilteredInvoices_query q p) = Some (''date'', False)"
  "q_range (fetchFilteredInvoices_query q p) = Some ((p - 1) * 6, (p - 1) * 6 + 5)"
  "q_limit (fetchFilteredInvoices_query q p) = None"
  "q_head (fetchFilteredInvoices_query q p) = False"
  "q_count (fetchFilteredInvoices_query q p) = False"
  by (simp_all add: fetchFilteredInvoices_query_def query_defs ITEMS_PER_PAGE_def Let_def
      search_filter_def)

lemma fetchInvoicesPages_query_fields:
  "q_table (fetchInvoicesPages_query q) = ''invoices''"
  "q_eq (fetchInvoicesPages_query q) = None"
  "q_single (fetchInvoicesPages_query q) = False"
  "q_or (fetchInvoicesPages_query q) = Some (search_filter q)"
  "q_order (fetchInvoicesPages_query q) = None"
  "q_range (fetchInvoicesPages_query q) = None"
  "q_limit (fetchInvoicesPages_query q) = None"
  "q_head (fetchInvoicesPages_query q) = True"
  "q_count (fetchInvoicesPages_query q) = True"
  by (simp_all add: fetchInvoicesPages_query_def query_defs search_filter_def)

lemma fetchLatestInvoices_query_fields:
  "q_table fetchLatestInvoices_query = ''invoices''"
  "q_eq fetchLatestInvoices_query = None"
  "q_single fetchLatestInvoices_query = False"
  "q_or fetchLatestInvoices_query = None"
  "q_order fetchLatestInvoices_query = Some (''date'', False)"
  "q_range fetchLatestInvoices_query = None"
  "q_limit fetchLatestInvoices_query = Some 5"
  "q_head fetchLatestInvoices_query = False"
  "q_count fetchLatestInvoices_query = False"
  by (simp_all add: fetchLatestInvoices_query_def query_defs)

text \<open>
  Claim C10: \<open>fetchFilteredInvoices\<close> does not validate its page argument. For every
  integer page the range passed to the collaborator is \<open>[(p - 1) * 6, (p - 1) * 6 + 5]\<close>;
  for a page below 1 both bounds are negative (page 0 asks for \<open>[-6, -1]\<close>), and whatever
  rows the collaborator answers to that request are mapped and returned: the page is
  neither rejected nor clamped.
\<close>

theorem fetchFilteredInvoices_negative_range:
  "q_range (fetchFilteredInvoices_query q p) = Some ((p - 1) * 6, (p - 1) * 6 + 5) \<and>
   q_range (fetchFilteredInvoices_query q 0) = Some (- 6, - 1) \<and>
   (p < 1 \<longrightarrow> (p - 1) * 6 < 0 \<and> (p - 1) * 6 + 5 < 0) \<and>
   (supabase (fetchFilteredInvoices_query q p) =
        Resolved \<lparr>data = Some rows, count = c, error = None\<rparr> \<longrightarrow>
      list_all (\<lambda>r. ir_customers r \<noteq> []) rows \<longrightarrow>
      fetchFilteredInvoices supabase q p = Inr (map table_of rows))"
proof -
  have "fetchFilteredInvoices supabase q p = Inr (map table_of rows)"
    if "supabase (fetchFilteredInvoices_query q p) =
          Resolved \<lparr>data = Some rows, count = c, error = None\<rparr>"
      and "list_all (\<lambda>r. ir_customers r \<noteq> []) rows"
    using fetchFilteredInvoices_rows [where supabase = supabase and q = q and p = p
        and rows = rows, OF that(1)] that(2) by simp
  then show ?thesis
    by (simp add: fetchFilteredInvoices_query_fields)
qed

theorem fetchFilteredInvoices_negative_range_witness:
  "(- 2 :: int) < 1 \<and>
   q_range (fetchFilteredInvoices_query ''x'' (- 2)) = Some (- 18, - 13) \<and>
   fetchFilteredInvoices (range_client (- 18, - 13) [row_with [rabbit]]) ''x'' (- 2) =
     Inr [\<lparr>it_id = ''i1'', it_customer_id = ''c1'', it_amount = 10000, it_date = 20221106,
           it_status = ''paid'', it_name = ''Evil Rabbit'',
           it_email = ''evil@rabbit.com'', it_image_url = ''/customers/evil-rabbit.png''\<rparr>]"
  using fetchFilteredInvoices_negative_range [of "''x''" "- 2"
      "range_client (- 18, - 13) [row_with [rabbit]]" "[row_with [rabbit]]" None]
  by (simp add: range_client_def ok_rows_def row_with_def rabbit_def table_of_def)

subsection \<open>The invoice form\<close>

text \<open>
  Claim C5: for every invoice id whose fetch succeeds, the amount returned is the stored
  minor-unit amount divided by 100 (a division of reals: nothing is truncated), and
  \<open>id\<close>, \<open>customer_id\<close> and \<open>status\<close> are those of the stored row. The fetch succeeds
  exactly when the collaborator resolves with a row and no error.
\<close>

theorem fetchInvoiceById_amount:
  "fetchInvoiceById supabase i = Inr form \<longleftrightarrow>
     (\<exists>r d. supabase (fetchInvoiceById_query i) = Resolved r \<and> error r = None \<and>
        data r = Some d \<and>
        form = \<lparr>if_id = fr_id d, if_customer_id = fr_customer_id d,
                 if_amount = real_of_int (fr_amount d) / 100, if_status = fr_status d\<rparr>)"
  by (auto simp add: fetchInvoiceById_def await_def throw_if_error_def try_catch_def
      split: awaited.splits option.splits)

theorem fetchInvoiceById_amount_witness:
  "fetchInvoiceById
     (const_client (ok_rows \<lparr>fr_id = ''i1'', fr_customer_id = ''c1'', fr_amount = 3000, fr_status = ''paid''\<rparr>))
     ''i1''
   = Inr \<lparr>if_id = ''i1'', if_customer_id = ''c1'', if_amount = 30, if_status = ''paid''\<rparr> \<and>
   fetchInvoiceById
     (const_client (ok_rows \<lparr>fr_id = ''i2'', fr_customer_id = ''c2'', fr_amount = 1999, fr_status = ''pending''\<rparr>))
     ''i2''
   = Inr \<lparr>if_id = ''i2'', if_customer_id = ''c2'', if_amount = 1999 / 100, if_status = ''pending''\<rparr>"
  using fetchInvoiceById_amount
      [of "const_client (ok_rows \<lparr>fr_id = ''i1'', fr_customer_id = ''c1'', fr_amount = 3000, fr_status = ''paid''\<rparr>)"
        "''i1''" "\<lparr>if_id = ''i1'', if_customer_id = ''c1'', if_amount = 30, if_status = ''paid''\<rparr>"]
    fetchInvoiceById_amount
      [of "const_client (ok_rows \<lparr>fr_id = ''i2'', fr_customer_id = ''c2'', fr_amount = 1999, fr_status = ''pending''\<rparr>)"
        "''i2''" "\<lparr>if_id = ''i2'', if_customer_id = ''c2'', if_amount = 1999 / 100, if_status = ''pending''\<rparr>"]
  by (simp add: const_client_def ok_rows_def)

subsection \<open>The customer table\<close>

text \<open>
  Claim C8: for every customer returned by \<open>fetchFilteredCustomers\<close>, \<open>total_invoices\<close> is
  the number of its joined invoices, \<open>total_pending\<close> the sum of the amounts of those with
  status "pending", \<open>total_paid\<close> the sum over those with status "paid"; a customer with no
  invoices (an empty or an absent array) has 0 for all three. The three fields are numbers
  by their type, never \<^verbatim>\<open>null\<close> or \<^verbatim>\<open>undefined\<close>.
\<close>

theorem fetchFilteredCustomers_totals:
  assumes "supabase (fetchFilteredCustomers_query q) = Resolved r"
    and "error r = None" and "data r = Some rows"
  shows "\<exists>out. fetchFilteredCustomers supabase q = Inr out \<and>
      list_all2
        (\<lambda>c t. ct_id t = cr_id c \<and> ct_name t = cr_name c \<and> ct_email t = cr_email c \<and>
           ct_image_url t = cr_image_url c \<and>
           total_invoices t = length (joined_invoices c) \<and>
           total_pending t =
             sum_list (map ie_amount (filter (\<lambda>i. ie_status i = ''pending'') (joined_invoices c))) \<and>
           total_paid t =
             sum_list (map ie_amount (filter (\<lambda>i. ie_status i = ''paid'') (joined_invoices c))) \<and>
           (joined_invoices c = [] \<longrightarrow>
              total_invoices t = 0 \<and> total_pending t = 0 \<and> total_paid t = 0))
        rows out"
proof -
  have res: "fetchFilteredCustomers supabase q = Inr (map table_customer rows)"
    using assms
    by (simp add: fetchFilteredCustomers_def await_def throw_if_error_def map_data_def
        map_throwing_Inr try_catch_def)
  have each: "ct_id (table_customer c) = cr_id c \<and> ct_name (table_customer c) = cr_name c \<and>
           ct_email (table_customer c) = cr_email c \<and>
           ct_image_url (table_customer c) = cr_image_url c \<and>
           total_invoices (table_customer c) = length (joined_invoices c) \<and>
           total_pending (table_customer c) =
             sum_list (map ie_amount (filter (\<lambda>i. ie_status i = ''pending'') (joined_invoices c))) \<and>
           total_paid (table_customer c) =
             sum_list (map ie_amount (filter (\<lambda>i. ie_status i = ''paid'') (joined_invoices c)))" for c
    by (simp add: table_customer_def joined_invoices_def nullish_def optional_chain_def
        foldl_cond_sum Let_def split: option.splits)
  have "list_all2
        (\<lambda>c t. ct_id t = cr_id c \<and> ct_name t = cr_name c \<and> ct_email t = cr_email c \<and>
           ct_image_url t = cr_image_url c \<and>
           total_invoices t = length (joined_invoices c) \<and>
           total_pending t =
             sum_list (map ie_amount (filter (\<lambda>i. ie_status i = ''pending'') (joined_invoices c))) \<and>
           total_paid t =
             sum_list (map ie_amount (filter (\<lambda>i. ie_status i = ''paid'') (joined_invoices c))) \<and>
           (joined_invoices c = [] \<longrightarrow>
              total_invoices t = 0 \<and> total_pending t = 0 \<and> total_paid t = 0))
        rows (map table_customer rows)"
    unfolding list_all2_map2 by (rule list_all2_refl) (simp add: each)
  with res show ?thesis by blast
qed

theorem fetchFilteredCustomers_totals_witness:
  "fetchFilteredCustomers (const_client (ok_rows example_customers)) ''rab'' =
     Inr [\<lparr>ct_id = ''c1'', ct_name = ''Evil Rabbit'', ct_email = ''evil@rabbit.com'',
           ct_image_url = ''/customers/evil-rabbit.png'',
           total_invoices = 3, total_pending = 5000, total_paid = 12000\<rparr>,
          \<lparr>ct_id = ''c2'', ct_name = ''Lee Robinson'', ct_email = ''lee@robinson.com'',
           ct_image_url = ''/customers/lee-robinson.png'',
           total_invoices = 0, total_pending = 0, total_paid = 0\<rparr>,
          \<lparr>ct_id = ''c3'', ct_name = ''Amy Burns'', ct_email = ''amy@burns.com'',
           ct_image_url = ''/customers/amy-burns.png'',
           total_invoices = 0, total_pending = 0, total_paid = 0\<rparr>]"
proof -
  have h1: "const_client (ok_rows example_customers) (fetchFilteredCustomers_query ''rab'') =
      Resolved (ok_rows example_customers)"
    by (simp add: const_client_def)
  have h2: "error (ok_rows example_customers) = None"
    by (simp add: ok_rows_def)
  have h3: "data (ok_rows example_customers) = Some example_customers"
    by (simp add: ok_rows_def)
  from fetchFilteredCustomers_totals [where supabase = "const_client (ok_rows example_customers)"
      and q = "''rab''", OF h1 h2 h3]
  show ?thesis
    by (auto simp add: example_customers_def list_all2_Cons1 joined_invoices_def)
qed

subsection \<open>The operations against the model of the collaborator\<close>

lemma joined_rows_nonempty:
  "references_ok db \<Longrightarrow> r \<in> set (joined_rows db) \<Longrightarrow> ir_customers r \<noteq> []"
  by (auto simp add: references_ok_def joined_rows_def joined_row_def list_all_iff list_ex_iff
      filter_empty_conv)

lemma joined_row_customer:
  assumes "references_ok db" and "r \<in> set (joined_rows db)"
  shows "\<exists>c\<in>set (customers db). cust_id c = ir_customer_id r \<and>
           hd (ir_customers r) = embed_customer c"
proof -
  from assms(2) obtain i where i: "i \<in> set (invoices db)" and r: "r = joined_row db i"
    by (auto simp add: joined_rows_def)
  let ?cs = "filter (\<lambda>c. cust_id c = inv_customer_id i) (customers db)"
  from assms(1) i have ne: "?cs \<noteq> []"
    by (auto simp add: references_ok_def list_all_iff list_ex_iff filter_empty_conv)
  then have "hd ?cs \<in> set ?cs" by (rule hd_in_set)
  then have "hd ?cs \<in> set (customers db) \<and> cust_id (hd ?cs) = inv_customer_id i"
    unfolding set_filter by blast
  moreover have "hd (ir_customers r) = embed_customer (hd ?cs)"
    using ne by (simp add: r joined_row_def hd_map)
  moreover have "ir_customer_id r = inv_customer_id i"
    by (simp add: r joined_row_def)
  ultimately show ?thesis by auto
qed

lemma sorted_desc_rev_sort_key:
  "sorted_wrt (\<lambda>a b. f b \<le> f a) (rev (sort_key f xs))"
proof -
  have "sorted (map f (sort_key f xs))" by simp
  then have "sorted_wrt (\<lambda>a b. f a \<le> f b) (sort_key f xs)"
    by (simp add: sorted_map)
  then show ?thesis by (simp add: sorted_wrt_rev)
qed

lemma sorted_desc_take_drop:
  assumes "sorted_wrt (\<lambda>a b. f b \<le> f a) xs"
    and "b \<in> set (take n xs)" and "a \<in> set (drop n xs)"
  shows "f a \<le> f b"
proof -
  have "sorted_wrt (\<lambda>a b. f b \<le> f a) (take n xs @ drop n xs)"
    using assms(1) by simp
  then show ?thesis
    using assms(2,3) unfolding sorted_wrt_append by blast
qed

lemma mset_split_at: "mset xs = mset (take n xs) + mset (drop n xs)"
  by (metis append_take_drop_id mset_append)

lemma mset_minus_take: "mset xs - mset (take n xs) = mset (drop n xs)"
  using mset_split_at [of xs n] by simp

lemma mset_take_subseteq: "mset (take n xs) \<subseteq># mset xs"
  using mset_split_at [of xs n] by (metis mset_subset_eq_add_left)

lemma supabase_invoices_page:
  assumes "1 \<le> p"
  shows "supabase_invoices matches db (fetchFilteredInvoices_query q p) =
    Resolved \<lparr>data = Some (take 6 (drop (nat ((p - 1) * 6))
                 (rev (sort_key ir_date (filter (matches (search_filter q)) (joined_rows db)))))),
              count = None, error = None\<rparr>"
  using assms
  by (simp add: supabase_invoices_def fetchFilteredInvoices_query_fields order_rows_def
      window_rows_def limit_to_def)

lemma supabase_invoices_count:
  "supabase_invoices matches db (fetchInvoicesPages_query q) =
    Resolved \<lparr>data = None, count = Some (totalMatches matches db q), error = None\<rparr>"
  by (simp add: supabase_invoices_def fetchInvoicesPages_query_fields order_rows_def
      window_rows_def limit_to_def totalMatches_def)

lemma supabase_invoices_latest:
  "supabase_invoices matches db fetchLatestInvoices_query =
    Resolved \<lparr>data = Some (take 5 (rev (sort_key ir_date (joined_rows db)))),
              count = None, error = None\<rparr>"
  by (simp add: supabase_invoices_def fetchLatestInvoices_query_fields order_rows_def
      window_rows_def limit_to_def)

lemma example_db_references: "references_ok example_db"
  by (simp add: references_ok_def example_db_def)

lemma example_db_matches:
  "totalMatches match_all example_db q = 8"
  "totalMatches match_status example_db ''paid'' = 4"
  "totalMatches match_status example_db ''overdue'' = 0"
  by (simp_all add: totalMatches_def match_all_def match_status_def joined_rows_def
      joined_row_def example_db_def search_filter_def)

text \<open>
  Claim C3: for every query string and every page \<open>p \<ge> 1\<close>, \<open>fetchFilteredInvoices\<close>
  requests the rows at offset \<open>(p - 1) * 6\<close> (offset 0 for page 1), ordered by date
  descending; it returns at most 6 rows, ordered by date descending, and their number is
  \<open>min 6 (totalMatches - 6 * (p - 1))\<close> when that difference is positive, 0 otherwise.
  The request is the code's; the rows come from the model of the collaborator, over any
  database in which every invoice references a customer (the relationship of the
  schema), and under any reading of the filter string.
\<close>

theorem fetchFilteredInvoices_page_rows:
  fixes db :: "('d::linorder) database"
  assumes "references_ok db" and "1 \<le> p"
  shows "q_range (fetchFilteredInvoices_query q p) = Some ((p - 1) * 6, (p - 1) * 6 + 5) \<and>
         q_range (fetchFilteredInvoices_query q 1) = Some (0, 5) \<and>
         q_order (fetchFilteredInvoices_query q p) = Some (''date'', False) \<and>
         (\<exists>rows. fetchFilteredInvoices (supabase_invoices matches db) q p = Inr rows \<and>
            length rows \<le> 6 \<and>
            sorted_wrt (\<lambda>a b. it_date b \<le> it_date a) rows \<and>
            int (length rows) =
              (if 0 < int (totalMatches matches db q) - 6 * (p - 1)
               then min 6 (int (totalMatches matches db q) - 6 * (p - 1)) else 0))"
proof -
  let ?ms = "filter (matches (search_filter q)) (joined_rows db)"
  let ?ordered = "rev (sort_key ir_date ?ms)"
  let ?page = "take 6 (drop (nat ((p - 1) * 6)) ?ordered)"
  have sub: "set ?page \<subseteq> set (joined_rows db)"
  proof
    fix x assume "x \<in> set ?page"
    then have "x \<in> set ?ordered" by (meson in_set_takeD in_set_dropD)
    then show "x \<in> set (joined_rows db)" by simp
  qed
  have nonempty: "list_all (\<lambda>r. ir_customers r \<noteq> []) ?page"
    unfolding list_all_iff using sub joined_rows_nonempty [OF assms(1)] by blast
  have res: "fetchFilteredInvoices (supabase_invoices matches db) q p = Inr (map table_of ?page)"
    using fetchFilteredInvoices_rows [where supabase = "supabase_invoices matches db" and q = q
        and p = p and rows = ?page, OF supabase_invoices_page [OF assms(2)]]
      nonempty by simp
  have "sorted_wrt (\<lambda>a b. ir_date b \<le> ir_date a) ?page"
    by (intro sorted_wrt_take sorted_wrt_drop sorted_desc_rev_sort_key)
  then have srt: "sorted_wrt (\<lambda>a b. it_date b \<le> it_date a) (map table_of ?page)"
    by (simp add: sorted_wrt_map table_of_def)
  have len: "length (map table_of ?page) = min 6 (totalMatches matches db q - nat ((p - 1) * 6))"
    by (simp add: totalMatches_def min.commute)
  have cnt: "int (length (map table_of ?page)) =
      (if 0 < int (totalMatches matches db q) - 6 * (p - 1)
       then min 6 (int (totalMatches matches db q) - 6 * (p - 1)) else 0)"
    unfolding len using assms(2) by auto
  have le: "length (map table_of ?page) \<le> 6" by simp
  show ?thesis
    using res srt cnt le by (simp add: fetchFilteredInvoices_query_fields del: length_map)
qed

text \<open>Eight invoices match: page 2 holds the last two.\<close>

theorem fetchFilteredInvoices_page_rows_witness:
  "references_ok example_db \<and> (1::int) \<le> 2 \<and>
   q_range (fetchFilteredInvoices_query ''x'' 2) = Some (6, 11) \<and>
   (\<exists>rows. fetchFilteredInvoices (supabase_invoices match_all example_db) ''x'' 2 = Inr rows \<and>
      length rows \<le> 6 \<and> sorted_wrt (\<lambda>a b. it_date b \<le> it_date a) rows \<and>
      int (length rows) = 2)"
proof -
  have h2: "(1::int) \<le> 2" by simp
  show ?thesis
    using example_db_references
      fetchFilteredInvoices_page_rows [OF example_db_references h2, of "''x''" match_all]
    by (simp add: example_db_matches)
qed

text \<open>
  Claim C4: \<open>fetchInvoicesPages\<close> returns the ceiling of the number of matching rows
  divided by 6, the matching rows being counted under the filter \<open>fetchFilteredInvoices\<close>
  sends, and 0 when no row matches. The ceiling and the filter string are the code's:
  whatever count the collaborator reports (none counting as 0), the result is its
  ceiling; against the model of the collaborator that count is \<open>totalMatches\<close>.
\<close>

theorem fetchInvoicesPages_ceiling:
  fixes db :: "('d::linorder) database"
  shows "(supabase (fetchInvoicesPages_query q) = Resolved r \<longrightarrow> error r = None \<longrightarrow>
            fetchInvoicesPages supabase q = Inr \<lceil>real (nullish (count r) 0) / 6\<rceil>) \<and>
         q_or (fetchInvoicesPages_query q) = q_or (fetchFilteredInvoices_query q p) \<and>
         fetchInvoicesPages (supabase_invoices matches db) q =
           Inr \<lceil>real (totalMatches matches db q) / 6\<rceil> \<and>
         (totalMatches matches db q = 0 \<longrightarrow>
            fetchInvoicesPages (supabase_invoices matches db) q = Inr 0)"
  by (simp add: fetchInvoicesPages_def supabase_invoices_count await_def throw_if_error_def
      try_catch_def nullish_def ITEMS_PER_PAGE_def fetchInvoicesPages_query_fields
      fetchFilteredInvoices_query_fields)

text \<open>Thirteen rows make 3 pages; eight make 2, four make 1, none makes 0.\<close>

theorem fetchInvoicesPages_ceiling_witness:
  "fetchInvoicesPages (const_client (ok_count 13 :: unit response)) ''x'' = Inr 3 \<and>
   fetchInvoicesPages (supabase_invoices match_all example_db) ''x'' = Inr 2 \<and>
   fetchInvoicesPages (supabase_invoices match_status example_db) ''paid'' = Inr 1 \<and>
   totalMatches match_status example_db ''overdue'' = 0 \<and>
   fetchInvoicesPages (supabase_invoices match_status example_db) ''overdue'' = Inr 0"
  using fetchInvoicesPages_ceiling [of "const_client (ok_count 13 :: unit response)" "''x''"
      "ok_count 13" 1 match_all example_db]
    fetchInvoicesPages_ceiling [of "const_client (ok_count 13 :: unit response)" "''paid''"
      "ok_count 13" 1 match_status example_db]
    fetchInvoicesPages_ceiling [of "const_client (ok_count 13 :: unit response)" "''overdue''"
      "ok_count 13" 1 match_status example_db]
  by (simp add: example_db_matches const_client_def ok_count_def nullish_def)

text \<open>
  Claim C7: \<open>fetchLatestInvoices\<close> returns invoices sorted by date descending, as many as
  \<open>min 5\<close> of the number of invoices (all of them when fewer than 5 exist), each with the
  name, email and image of its customer and with its amount as a number. Stated against
  the model of the collaborator, over any database in which every invoice references a
  customer: the result is the image of a list \<open>src\<close> of joined rows that is sorted by
  date descending, is taken from the invoices, leaves out no invoice dated later than
  one it holds, and carries for each row the fields of a customer whose id is the row's
  \<open>customer_id\<close>.
\<close>

theorem fetchLatestInvoices_latest5:
  fixes db :: "('d::linorder) database"
  assumes "references_ok db"
  shows "\<exists>src. fetchLatestInvoices (supabase_invoices matches db) = Inr (map latest_of src) \<and>
      length (map latest_of src) = min 5 (length (invoices db)) \<and>
      sorted_wrt (\<lambda>a b. ir_date b \<le> ir_date a) src \<and>
      mset src \<subseteq># mset (joined_rows db) \<and>
      (\<forall>a\<in>#mset (joined_rows db) - mset src. \<forall>b\<in>set src. ir_date a \<le> ir_date b) \<and>
      (length (invoices db) < 5 \<longrightarrow> mset src = mset (joined_rows db)) \<and>
      (\<forall>r\<in>set src.
         li_id (latest_of r) = ir_id r \<and> li_amount (latest_of r) = ir_amount r \<and>
         (\<exists>c\<in>set (customers db). cust_id c = ir_customer_id r \<and>
            li_name (latest_of r) = cust_name c \<and> li_email (latest_of r) = cust_email c \<and>
            li_image_url (latest_of r) = cust_image_url c))"
proof -
  let ?ordered = "rev (sort_key ir_date (joined_rows db))"
  let ?src = "take 5 ?ordered"
  have ms: "mset ?ordered = mset (joined_rows db)" by simp
  have sub: "set ?src \<subseteq> set (joined_rows db)"
  proof
    fix x assume "x \<in> set ?src"
    then have "x \<in> set ?ordered" by (rule in_set_takeD)
    then show "x \<in> set (joined_rows db)" by simp
  qed
  have nonempty: "list_all (\<lambda>r. ir_customers r \<noteq> []) ?src"
    unfolding list_all_iff using sub joined_rows_nonempty [OF assms] by blast
  have res: "fetchLatestInvoices (supabase_invoices matches db) = Inr (map latest_of ?src)"
    using fetchLatestInvoices_rows [where supabase = "supabase_invoices matches db"
        and rows = ?src, OF supabase_invoices_latest]
      nonempty by simp
  have len: "length (map latest_of ?src) = min 5 (length (invoices db))"
    by (simp add: joined_rows_def min.commute)
  have desc: "sorted_wrt (\<lambda>a b. ir_date b \<le> ir_date a) ?ordered"
    by (rule sorted_desc_rev_sort_key)
  then have srt: "sorted_wrt (\<lambda>a b. ir_date b \<le> ir_date a) ?src"
    by (rule sorted_wrt_take)
  have incl: "mset ?src \<subseteq># mset (joined_rows db)"
    using mset_take_subseteq [of 5 ?ordered] by (simp only: ms)
  have rest: "mset (joined_rows db) - mset ?src = mset (drop 5 ?ordered)"
    using mset_minus_take [of ?ordered 5] by (simp only: ms)
  have top: "\<forall>a\<in>#mset (joined_rows db) - mset ?src. \<forall>b\<in>set ?src. ir_date a \<le> ir_date b"
    unfolding rest using sorted_desc_take_drop [OF desc] by auto
  have all: "length (invoices db) < 5 \<longrightarrow> mset ?src = mset (joined_rows db)"
    by (simp add: joined_rows_def)
  have ann: "\<forall>r\<in>set ?src.
         li_id (latest_of r) = ir_id r \<and> li_amount (latest_of r) = ir_amount r \<and>
         (\<exists>c\<in>set (customers db). cust_id c = ir_customer_id r \<and>
            li_name (latest_of r) = cust_name c \<and> li_email (latest_of r) = cust_email c \<and>
            li_image_url (latest_of r) = cust_image_url c)"
  proof
    fix r assume "r \<in> set ?src"
    with sub have "r \<in> set (joined_rows db)" by blast
    from joined_row_customer [OF assms this] obtain c where
      "c \<in> set (customers db)" "cust_id c = ir_customer_id r"
      "hd (ir_customers r) = embed_customer c" by blast
    then show "li_id (latest_of r) = ir_id r \<and> li_amount (latest_of r) = ir_amount r \<and>
         (\<exists>c\<in>set (customers db). cust_id c = ir_customer_id r \<and>
            li_name (latest_of r) = cust_name c \<and> li_email (latest_of r) = cust_email c \<and>
            li_image_url (latest_of r) = cust_image_url c)"
      by (auto simp add: latest_of_def embed_customer_def)
  qed
  from res len srt incl top all ann show ?thesis by blast
qed

text \<open>On the example database the five latest of the eight invoices come back.\<close>

lemma fetchLatestInvoices_example:
  "fetchLatestInvoices (supabase_invoices match_all example_db) =
     Inr [\<lparr>li_id = ''i4'', li_amount = 44800, li_name = ''Delba de Oliveira'',
            li_email = ''delba@oliveira.com'', li_image_url = ''/customers/delba-de-oliveira.png''\<rparr>,
          \<lparr>li_id = ''i5'', li_amount = 34577, li_name = ''Evil Rabbit'',
            li_email = ''evil@rabbit.com'', li_image_url = ''/customers/evil-rabbit.png''\<rparr>,
          \<lparr>li_id = ''i6'', li_amount = 54246, li_name = ''Delba de Oliveira'',
            li_email = ''delba@oliveira.com'', li_image_url = ''/customers/delba-de-oliveira.png''\<rparr>,
          \<lparr>li_id = ''i7'', li_amount = 666, li_name = ''Evil Rabbit'',
            li_email = ''evil@rabbit.com'', li_image_url = ''/customers/evil-rabbit.png''\<rparr>,
          \<lparr>li_id = ''i8'', li_amount = 32545, li_name = ''Delba de Oliveira'',
            li_email = ''delba@oliveira.com'', li_image_url = ''/customers/delba-de-oliveira.png''\<rparr>]"
proof -
  have "fetchLatestInvoices (supabase_invoices match_all example_db) =
      (if list_all (\<lambda>r. ir_customers r \<noteq> []) (take 5 (rev (sort_key ir_date (joined_rows example_db))))
       then Inr (map latest_of (take 5 (rev (sort_key ir_date (joined_rows example_db)))))
       else Inl (Error ''Failed to fetch the latest invoices.''))"
    by (rule fetchLatestInvoices_rows [where supabase = "supabase_invoices match_all example_db",
        OF supabase_invoices_latest]) simp_all
  then show ?thesis
    by (simp add: example_db_def joined_rows_def joined_row_def latest_of_def embed_customer_def)
qed

theorem fetchLatestInvoices_latest5_witness:
  "references_ok example_db \<and>
   (\<exists>src. fetchLatestInvoices (supabase_invoices match_all example_db) = Inr (map latest_of src) \<and>
      length (map latest_of src) = 5 \<and>
      sorted_wrt (\<lambda>a b. ir_date b \<le> ir_date a) src \<and>
      mset src \<subseteq># mset (joined_rows example_db))"
proof -
  have l: "length (invoices example_db) = 8" by (simp add: example_db_def)
  from fetchLatestInvoices_latest5 [OF example_db_references, of match_all] obtain src where
    "fetchLatestInvoices (supabase_invoices match_all example_db) = Inr (map latest_of src)"
    "length (map latest_of src) = min 5 (length (invoices example_db))"
    "sorted_wrt (\<lambda>a b. ir_date b \<le> ir_date a) src"
    "mset src \<subseteq># mset (joined_rows example_db)"
    by blast
  with example_db_references l show ?thesis by auto
qed

end
